theory Spec2Isabelle
  imports Complex_Main "HOL-Library.Sublist"
begin

section \<open>JavaScript values used by the components\<close>

text \<open>
  A JavaScript \<open>number\<close> is modelled as \<open>NaN\<close> or a finite value, given by the real
  number it stands for. \<open>Math.floor\<close>, \<open>Math.abs\<close>, \<open>Math.max\<close>, \<open>Math.min\<close>, \<open>%\<close> and the
  comparisons are exact on doubles, and so they are here. A product is rounded to the
  nearest double, as \<open>*\<close> does. A difference and a quotient are not rounded: the
  components use them under the floor of a quotient by 60 and under a clamp only. The
  infinities, the overflow to them and the sign of zero are not modelled (the components
  never divide by a value that can be zero, and \<open>-0\<close> prints, compares and tests like
  \<open>0\<close>).
\<close>

datatype jsnum = NaN | Num real

text \<open>A field or prop of type \<open>T | null | undefined\<close>.\<close>

datatype 'a nullable = Undefined | Null | Val 'a

text \<open>A value of type \<open>string | number\<close>.\<close>

datatype strnum = Str string | Number jsnum

subsection \<open>Doubles\<close>

text \<open>
  The doubles are the reals that rounding leaves unchanged. \<open>expo x\<close> is the binary
  exponent of a positive \<open>x\<close>, with \<open>2^(expo x) \<le> x < 2^(expo x + 1)\<close>; \<open>fl x\<close> is the
  multiple of \<open>2^(expo |x| - 52)\<close> nearest to \<open>x\<close>, the one with an even multiplier of two
  equally near (below \<open>2^-1022\<close> the step is \<open>2^-1074\<close>). A decimal literal \<open>c\<close> of the source
  denotes \<open>fl c\<close>.
\<close>

function expo :: "real \<Rightarrow> int" where
  "expo x =
     (if 2 \<le> x then expo (x / 2) + 1
      else if 0 < x \<and> x < 1 then expo (x * 2) - 1
      else 0)"
  by pat_completeness auto
termination
proof (relation "measure (\<lambda>x. nat \<bar>\<lfloor>log 2 x\<rfloor>\<bar>)")
  show "wf (measure (\<lambda>x. nat \<bar>\<lfloor>log 2 x\<rfloor>\<bar>))"
    by simp
next
  fix x :: real
  assume x: "2 \<le> x"
  then have "log 2 (x / 2) = log 2 x - 1"
    by (simp add: log_divide)
  moreover have "1 \<le> log 2 x"
    using x by (simp add: le_log_iff)
  ultimately have "\<lfloor>log 2 (x / 2)\<rfloor> = \<lfloor>log 2 x\<rfloor> - 1" "1 \<le> \<lfloor>log 2 x\<rfloor>"
    by (simp_all add: le_floor_iff)
  then have "nat \<bar>\<lfloor>log 2 (x / 2)\<rfloor>\<bar> < nat \<bar>\<lfloor>log 2 x\<rfloor>\<bar>"
    by linarith
  then show "(x / 2, x) \<in> measure (\<lambda>x. nat \<bar>\<lfloor>log 2 x\<rfloor>\<bar>)"
    by (simp only: in_measure)
next
  fix x :: real
  assume "\<not> 2 \<le> x" and x: "0 < x \<and> x < 1"
  then have "log 2 (x * 2) = log 2 x + 1"
    by (simp add: log_mult)
  moreover have "log 2 x < 0"
    using x by simp
  ultimately have "\<lfloor>log 2 (x * 2)\<rfloor> = \<lfloor>log 2 x\<rfloor> + 1" "\<lfloor>log 2 x\<rfloor> < 0"
    by (simp_all add: floor_less_iff)
  then have "nat \<bar>\<lfloor>log 2 (x * 2)\<rfloor>\<bar> < nat \<bar>\<lfloor>log 2 x\<rfloor>\<bar>"
    by linarith
  then show "(x * 2, x) \<in> measure (\<lambda>x. nat \<bar>\<lfloor>log 2 x\<rfloor>\<bar>)"
    by (simp only: in_measure)
qed

declare expo.simps [simp del]

definition round_half_even :: "real \<Rightarrow> int" where
  "round_half_even z =
     (let n = \<lfloor>z\<rfloor>; r = z - of_int n
      in if r < 1 / 2 then n else if 1 / 2 < r then n + 1 else if even n then n else n + 1)"

definition fl :: "real \<Rightarrow> real" where
  "fl x =
     (if x = 0 then 0
      else
        let q = 2 powi (max (expo \<bar>x\<bar>) (- 1022) - 52)
        in q * of_int (round_half_even (x / q)))"

definition double :: "real \<Rightarrow> bool" where
  "double x = (fl x = x)"

subsection \<open>Number operations\<close>

definition isNaN :: "jsnum \<Rightarrow> bool" where
  "isNaN n = (case n of NaN \<Rightarrow> True | Num _ \<Rightarrow> False)"

text \<open>Truthiness of a number: \<open>0\<close> and \<open>NaN\<close> are falsy.\<close>

definition truthy :: "jsnum \<Rightarrow> bool" where
  "truthy n = (case n of NaN \<Rightarrow> False | Num x \<Rightarrow> x \<noteq> 0)"

definition Math_floor :: "jsnum \<Rightarrow> jsnum" where
  "Math_floor n = (case n of NaN \<Rightarrow> NaN | Num x \<Rightarrow> Num (of_int \<lfloor>x\<rfloor>))"

definition Math_abs :: "jsnum \<Rightarrow> jsnum" where
  "Math_abs n = (case n of NaN \<Rightarrow> NaN | Num x \<Rightarrow> Num \<bar>x\<bar>)"

fun Math_max :: "jsnum \<Rightarrow> jsnum \<Rightarrow> jsnum" where
  "Math_max (Num x) (Num y) = Num (max x y)"
| "Math_max _ _ = NaN"

fun Math_min :: "jsnum \<Rightarrow> jsnum \<Rightarrow> jsnum" where
  "Math_min (Num x) (Num y) = Num (min x y)"
| "Math_min _ _ = NaN"

fun js_sub :: "jsnum \<Rightarrow> jsnum \<Rightarrow> jsnum" where
  "js_sub (Num x) (Num y) = Num (x - y)"
| "js_sub _ _ = NaN"

text \<open>The product \<open>*\<close>: the double nearest to the exact product.\<close>

fun js_mul :: "jsnum \<Rightarrow> jsnum \<Rightarrow> jsnum" where
  "js_mul (Num x) (Num y) = Num (fl (x * y))"
| "js_mul _ _ = NaN"

text \<open>
  Division. \<open>0 / 0\<close> is \<open>NaN\<close>; any other quotient by zero is infinite in JavaScript
  and has no value in this model, so it is mapped to \<open>NaN\<close> as well. The components
  divide by the constant \<open>60\<close> and by a duration already tested to be positive only.
\<close>

fun js_div :: "jsnum \<Rightarrow> jsnum \<Rightarrow> jsnum" where
  "js_div (Num x) (Num y) = (if y = 0 then NaN else Num (x / y))"
| "js_div _ _ = NaN"

text \<open>
  The remainder operator \<open>%\<close>: the quotient is truncated towards zero, so the result
  has the sign of the dividend; a zero divisor gives \<open>NaN\<close>.
\<close>

definition trunc :: "real \<Rightarrow> int" where
  "trunc x = (if x < 0 then \<lceil>x\<rceil> else \<lfloor>x\<rfloor>)"

fun js_rem :: "jsnum \<Rightarrow> jsnum \<Rightarrow> jsnum" where
  "js_rem (Num x) (Num y) = (if y = 0 then NaN else Num (x - y * of_int (trunc (x / y))))"
| "js_rem _ _ = NaN"

text \<open>Comparisons are false as soon as one side is \<open>NaN\<close>.\<close>

fun js_gt :: "jsnum \<Rightarrow> jsnum \<Rightarrow> bool" where
  "js_gt (Num x) (Num y) = (x > y)"
| "js_gt _ _ = False"

fun js_ge :: "jsnum \<Rightarrow> jsnum \<Rightarrow> bool" where
  "js_ge (Num x) (Num y) = (x \<ge> y)"
| "js_ge _ _ = False"

subsection \<open>Numbers as text\<close>

definition digit_char :: "nat \<Rightarrow> char" where
  "digit_char d = ''0123456789'' ! d"

fun decimal :: "nat \<Rightarrow> string" where
  "decimal n = (if n < 10 then [digit_char n] else decimal (n div 10) @ [digit_char (n mod 10)])"

declare decimal.simps [simp del]

text \<open>
  The characters that the text of a finite number can consist of: digits, the decimal
  point, the sign and the exponent marker.
\<close>

datatype numsym = D0 | D1 | D2 | D3 | D4 | D5 | D6 | D7 | D8 | D9 | Point | Minus | Plus | Exp

fun sym_char :: "numsym \<Rightarrow> char" where
  "sym_char D0 = CHR ''0''"
| "sym_char D1 = CHR ''1''"
| "sym_char D2 = CHR ''2''"
| "sym_char D3 = CHR ''3''"
| "sym_char D4 = CHR ''4''"
| "sym_char D5 = CHR ''5''"
| "sym_char D6 = CHR ''6''"
| "sym_char D7 = CHR ''7''"
| "sym_char D8 = CHR ''8''"
| "sym_char D9 = CHR ''9''"
| "sym_char Point = CHR ''.''"
| "sym_char Minus = CHR ''-''"
| "sym_char Plus = CHR ''+''"
| "sym_char Exp = CHR ''e''"

text \<open>
  The conversion of a number to a string, as a template literal performs it. An
  integer of magnitude below \<open>2^53\<close> is printed as its decimal digits, with a leading
  \<open>-\<close> when negative. Every other finite value (a fraction, or a magnitude from
  \<open>2^53\<close> on, where the shortest round-trip digits of a double are printed) is left to
  the parameter \<open>rt\<close>, the runtime's rendering, of which only the alphabet is fixed.
\<close>

definition Number_toString :: "(real \<Rightarrow> numsym list) \<Rightarrow> jsnum \<Rightarrow> string" where
  "Number_toString rt n =
     (case n of
        NaN \<Rightarrow> ''NaN''
      | Num x \<Rightarrow>
          if x = of_int \<lfloor>x\<rfloor> \<and> \<bar>x\<bar> < 2 ^ 53
          then (if x < 0 then ''-'' else '''') @ decimal (nat \<lfloor>\<bar>x\<bar>\<rfloor>)
          else map sym_char (rt x))"

text \<open>
  \<open>Number.prototype.toFixed\<close> with argument \<open>0\<close>: the sign, then the integer nearest to
  the magnitude (the larger one of two equally near), in decimal digits; from \<open>10^21\<close>
  on, the magnitude is converted as a template literal would.
\<close>

definition toFixed0 :: "(real \<Rightarrow> numsym list) \<Rightarrow> jsnum \<Rightarrow> string" where
  "toFixed0 rt n =
     (case n of
        NaN \<Rightarrow> ''NaN''
      | Num x \<Rightarrow>
          (if x < 0 then ''-'' else '''')
          @ (if 10 ^ 21 \<le> \<bar>x\<bar> then Number_toString rt (Num \<bar>x\<bar>)
             else decimal (nat \<lfloor>\<bar>x\<bar> + 1 / 2\<rfloor>)))"

text \<open>\<open>String.prototype.includes\<close>: \<open>str_includes t s\<close> is \<open>t.includes(s)\<close>.\<close>

fun str_includes :: "string \<Rightarrow> string \<Rightarrow> bool" where
  "str_includes [] s = (s = [])"
| "str_includes (c # cs) s = (prefix s (c # cs) \<or> str_includes cs s)"

section \<open>The navigation bar\<close>

text \<open>
  \<^verbatim>\<open>
  function formatDuration(mins?: number) {
    if (typeof mins !== "number" || isNaN(mins)) return "N/A";
    mins = Math.max(0, mins);
    const h = Math.floor(mins / 60);
    const m = mins % 60;
    return `${h > 0 ? `${h} hr ` : ""}${m} min`;
  }
  \<close>
\<close>

definition formatDuration :: "(real \<Rightarrow> numsym list) \<Rightarrow> jsnum nullable \<Rightarrow> string" where
  "formatDuration rt mins =
     (case mins of
        Val n \<Rightarrow>
          if isNaN n then ''N/A''
          else
            let mins = Math_max (Num 0) n;
                h = Math_floor (js_div mins (Num 60));
                m = js_rem mins (Num 60)
            in (if js_gt h (Num 0) then Number_toString rt h @ '' hr '' else '''')
               @ Number_toString rt m @ '' min''
      | _ \<Rightarrow> ''N/A'')"

text \<open>
  The elapsed time and the width of the progress bar, computed in the body of
  \<open>NavBar\<close> from the props \<open>flightDuration\<close> and \<open>timeToGo\<close> (both \<open>number\<close>,
  optional):
  \<^verbatim>\<open>
  const elapsed =
    typeof flightDuration === "number" && typeof timeToGo === "number"
      ? flightDuration - timeToGo
      : undefined;
  const percent =
    typeof flightDuration === "number" &&
    typeof timeToGo === "number" &&
    flightDuration > 0
      ? Math.max(0, Math.min(100, ((flightDuration - timeToGo) / flightDuration) * 100))
      : 0;
  \<close>
\<close>

definition elapsed :: "jsnum nullable \<Rightarrow> jsnum nullable \<Rightarrow> jsnum nullable" where
  "elapsed flightDuration timeToGo =
     (case (flightDuration, timeToGo) of
        (Val d, Val t) \<Rightarrow> Val (js_sub d t)
      | _ \<Rightarrow> Undefined)"

definition percent :: "jsnum nullable \<Rightarrow> jsnum nullable \<Rightarrow> jsnum" where
  "percent flightDuration timeToGo =
     (case (flightDuration, timeToGo) of
        (Val d, Val t) \<Rightarrow>
          if js_gt d (Num 0)
          then Math_max (Num 0) (Math_min (Num 100) (js_mul (js_div (js_sub d t) d) (Num 100)))
          else Num 0
      | _ \<Rightarrow> Num 0)"

section \<open>Flight data\<close>

text \<open>
  Modelled from the spec: the type \<open>FlightData\<close> of \<open>@/types/flight\<close>, with the fields
  that the components read. \<open>heading\<close> and \<open>distanceToGo\<close> may be missing.
\<close>

record FlightData =
  groundspeed :: jsnum
  altitude :: jsnum
  heading :: "jsnum nullable"
  distanceToGo :: "jsnum nullable"
  latitude :: jsnum
  longitude :: jsnum

subsection \<open>The export action of the navigation bar\<close>

text \<open>
  \<open>handleExport\<close> only acts on its surroundings: it calls \<open>convertToGPX\<close> and
  \<open>downloadGPX\<close> of \<open>@/utils/gpx\<close> and the setter of the \<open>open\<close> state. The model
  keeps the \<open>open\<close> flag and the list of calls made so far, in order; the result of
  \<open>convertToGPX\<close> is a parameter.
  \<^verbatim>\<open>
  const handleExport = () => {
    if (flightData.length === 0) return;
    const gpxContent = convertToGPX(flightData);
    downloadGPX(gpxContent, flightNumber || "flight");
    setOpen(false);
  };
  \<close>
\<close>

datatype call = ConvertToGPX "FlightData list" | DownloadGPX string string | SetOpen bool

record NavBarState =
  "open" :: bool
  calls :: "call list"

text \<open>\<open>flightNumber || "flight"\<close>: a missing or empty flight number is falsy.\<close>

definition or_flight :: "string nullable \<Rightarrow> string" where
  "or_flight flightNumber =
     (case flightNumber of
        Val s \<Rightarrow> if s \<noteq> [] then s else ''flight''
      | _ \<Rightarrow> ''flight'')"

definition handleExport ::
  "(FlightData list \<Rightarrow> string) \<Rightarrow> FlightData list \<Rightarrow> string nullable \<Rightarrow> NavBarState \<Rightarrow> NavBarState"
where
  "handleExport convertToGPX flightData flightNumber s =
     (if length flightData = 0 then s
      else
        let gpxContent = convertToGPX flightData
        in s\<lparr>open := False,
             calls := calls s @ [ConvertToGPX flightData,
                                 DownloadGPX gpxContent (or_flight flightNumber),
                                 SetOpen False]\<rparr>)"

text \<open>The menu entry that triggers the export: \<open>disabled={flightData.length === 0}\<close>.\<close>

definition export_disabled :: "FlightData list \<Rightarrow> bool" where
  "export_disabled flightData = (length flightData = 0)"

section \<open>The flight metrics\<close>

text \<open>
  The conversions \<open>knotsToKmh\<close>, \<open>feetToMeters\<close> and \<open>getCompassDirection\<close> are
  imported from \<open>@/lib/utils\<close>; the metrics take them as parameters. Their results
  are stored in \<open>secondaryValue\<close>, of type \<open>string | number | null\<close>.
\<close>

record Utils =
  knotsToKmh :: "jsnum \<Rightarrow> strnum nullable"
  feetToMeters :: "jsnum \<Rightarrow> strnum nullable"
  getCompassDirection :: "jsnum \<Rightarrow> strnum nullable"

text \<open>
  The interfaces \<open>BaseMetric\<close>, \<open>StandardMetric\<close> and \<open>CoordinateMetric\<close>, without the
  \<open>icon\<close>; the flag \<open>isCoordinate\<close> is the constructor of \<open>Metric\<close>.
\<close>

record BaseMetric =
  title :: string
  unit :: string
  secondaryValue :: "strnum nullable"
  secondaryUnit :: "string nullable"

record StandardMetric = BaseMetric +
  "value" :: "jsnum nullable"
  places :: "nat list"

record CoordinateMetric = BaseMetric +
  wholeValue :: jsnum
  decimalValue :: jsnum
  wholePlaces :: "nat list"
  decimalPlaces :: "nat list"

datatype Metric = Standard StandardMetric | Coordinate CoordinateMetric

text \<open>The degree sign, one UTF-16 code unit.\<close>

definition deg :: string where
  "deg = [CHR 0xB0]"

text \<open>
  The local constant \<open>distanceToGo\<close> of the component (primed here, the field of
  \<open>FlightData\<close> has the same name):
  \<^verbatim>\<open>
  const distanceToGo = (data.distanceToGo !== null && data.distanceToGo !== undefined)
    ? Math.floor(data.distanceToGo)
    : null
  \<close>
\<close>

definition distanceToGo' :: "FlightData \<Rightarrow> jsnum nullable" where
  "distanceToGo' data =
     (case distanceToGo data of
        Val x \<Rightarrow> Val (Math_floor x)
      | _ \<Rightarrow> Null)"

text \<open>
  The array \<open>metrics\<close>, entry by entry as in the component. A conditional
  \<open>x ? a : b\<close> on a field that may be missing takes the branch \<open>a\<close> when the field is a
  truthy number.
\<close>

definition metrics :: "Utils \<Rightarrow> (real \<Rightarrow> numsym list) \<Rightarrow> FlightData \<Rightarrow> Metric list" where
  "metrics lib rt data =
     [Standard \<lparr>
        title = ''Ground Speed'',
        unit = ''knots'',
        secondaryValue = knotsToKmh lib (groundspeed data),
        secondaryUnit = Val ''km/h'',
        value = Val (Math_floor (groundspeed data)),
        places = [1000, 100, 10, 1]\<rparr>,
      Standard \<lparr>
        title = ''Altitude'',
        unit = ''ft'',
        secondaryValue = feetToMeters lib (altitude data),
        secondaryUnit = Val ''m'',
        value = Val (Math_floor (altitude data)),
        places = [10000, 1000, 100, 10, 1]\<rparr>,
      Standard \<lparr>
        title = ''Heading'',
        unit = deg,
        secondaryValue =
          (case heading data of
             Val h \<Rightarrow> if truthy h then getCompassDirection lib h else Null
           | _ \<Rightarrow> Null),
        secondaryUnit = Val '''',
        value =
          (case heading data of
             Val h \<Rightarrow> if truthy h then Val (Math_abs (Math_floor h)) else Null
           | _ \<Rightarrow> Null),
        places = [100, 10, 1]\<rparr>,
      Standard \<lparr>
        title = ''Distance To Go'',
        unit = ''nm'',
        secondaryValue =
          (case distanceToGo' data of
             Val n \<Rightarrow>
               if truthy n then Val (Str (toFixed0 rt (js_mul n (Num (fl 1.852))))) else Null
           | _ \<Rightarrow> Null),
        secondaryUnit = Val ''km'',
        value = distanceToGo' data,
        places = [1000, 100, 10, 1]\<rparr>,
      Coordinate \<lparr>
        title = ''Latitude'',
        unit = (if js_ge (latitude data) (Num 0) then deg @ ''N'' else deg @ ''S''),
        secondaryValue = Undefined,
        secondaryUnit = Undefined,
        wholeValue = Math_floor (Math_abs (latitude data)),
        decimalValue =
          Math_floor (js_mul (js_rem (Math_abs (latitude data)) (Num 1)) (Num 1000)),
        wholePlaces = [100, 10, 1],
        decimalPlaces = [100, 10, 1]\<rparr>,
      Coordinate \<lparr>
        title = ''Longitude'',
        unit = (if js_ge (longitude data) (Num 0) then deg @ ''E'' else deg @ ''W''),
        secondaryValue = Undefined,
        secondaryUnit = Undefined,
        wholeValue = Math_floor (Math_abs (longitude data)),
        decimalValue =
          Math_floor (js_mul (js_rem (Math_abs (longitude data)) (Num 1)) (Num 1000)),
        wholePlaces = [100, 10, 1],
        decimalPlaces = [100, 10, 1]\<rparr>]"

section \<open>Compass directions\<close>

text \<open>
  Modelled from the spec: \<open>getCompassDirection\<close> of \<open>@/lib/utils\<close> is not among the
  sources. The spec has it map a bearing to one of 8 or 16 compass points, by sectors of
  equal width centred on the points (north is \<open>[-11.25, 11.25)\<close> with 16 points), after
  normalising the bearing modulo 360 into \<open>[0, 360)\<close>, negative bearings included.
\<close>

definition points8 :: "string list" where
  "points8 = [''N'', ''NE'', ''E'', ''SE'', ''S'', ''SW'', ''W'', ''NW'']"

definition points16 :: "string list" where
  "points16 =
     [''N'', ''NNE'', ''NE'', ''ENE'', ''E'', ''ESE'', ''SE'', ''SSE'',
      ''S'', ''SSW'', ''SW'', ''WSW'', ''W'', ''WNW'', ''NW'', ''NNW'']"

definition normalize360 :: "real \<Rightarrow> real" where
  "normalize360 h = h - 360 * of_int \<lfloor>h / 360\<rfloor>"

definition sector :: "nat \<Rightarrow> real \<Rightarrow> nat" where
  "sector n h =
     (let width = 360 / of_nat n
      in nat \<lfloor>(normalize360 h + width / 2) / width\<rfloor> mod n)"

definition compassDirection :: "string list \<Rightarrow> real \<Rightarrow> string" where
  "compassDirection points h = points ! sector (length points) h"

section \<open>A sample snapshot\<close>

text \<open>
  A snapshot and conversions to evaluate the metrics on. The conversions stand in for
  those of \<open>@/lib/utils\<close>; the heading of the snapshot lies in the north sector.
\<close>

definition sample_data :: FlightData where
  "sample_data =
     \<lparr>groundspeed = Num 450,
      altitude = Num 35000,
      heading = Val (Num (- 10)),
      distanceToGo = Val (Num (fl 123.7)),
      latitude = Num (fl (- 33.8765)),
      longitude = Num (fl 151.2093)\<rparr>"

definition sample_utils :: Utils where
  "sample_utils =
     \<lparr>knotsToKmh = (\<lambda>v. Val (Number (js_mul v (Num (fl 1.852))))),
      feetToMeters = (\<lambda>v. Val (Number (js_mul v (Num (fl 0.3048))))),
      getCompassDirection = (\<lambda>v. Val (Str ''N''))\<rparr>"

section \<open>Facts about rounding to a double\<close>

lemma two_powi_Suc: "(2::real) powi (n + 1) = 2 * 2 powi n"
  by (rule power_int_add_1') simp

lemma two_powi_pred: "(2::real) powi n = 2 * 2 powi (n - 1)"
  using two_powi_Suc [of "n - 1"] by simp

lemma two_powi_less: "(2::real) powi m < 2 powi n \<Longrightarrow> m < n"
proof (rule ccontr)
  assume less: "(2::real) powi m < 2 powi n" and "\<not> m < n"
  then have "n \<le> m"
    by simp
  then have "(2::real) powi n \<le> 2 powi m"
    by (rule power_int_increasing) simp
  with less show False
    by simp
qed

lemma expo_bounds:
  "0 < x \<Longrightarrow> 2 powi expo x \<le> x \<and> x < 2 powi (expo x + 1)"
proof (induction x rule: expo.induct)
  case (1 x)
  show ?case
  proof (cases "2 \<le> x")
    case True
    then have e: "expo x = expo (x / 2) + 1"
      by (subst expo.simps) simp
    from True "1.prems" have "2 powi expo (x / 2) \<le> x / 2 \<and> x / 2 < 2 powi (expo (x / 2) + 1)"
      by (intro "1.IH"(1)) simp_all
    then show ?thesis
      unfolding e two_powi_Suc by linarith
  next
    case False
    show ?thesis
    proof (cases "x < 1")
      case True
      with False "1.prems" have e: "expo x = expo (x * 2) - 1"
        by (subst expo.simps) simp
      from True False "1.prems"
      have "2 powi expo (x * 2) \<le> x * 2 \<and> x * 2 < 2 powi (expo (x * 2) + 1)"
        by (intro "1.IH"(2)) simp_all
      then have "2 * 2 powi (expo (x * 2) - 1) \<le> x * 2
          \<and> x * 2 < 2 * (2 * 2 powi (expo (x * 2) - 1))"
        unfolding two_powi_Suc by (subst (asm) (1 2) two_powi_pred) simp
      then show ?thesis
        unfolding e two_powi_Suc by linarith
    next
      case ge: False
      with False have "expo x = 0"
        by (subst expo.simps) simp
      with False ge show ?thesis
        by simp
    qed
  qed
qed

lemma expo_less: 
  assumes "0 < x" and "x < 2 powi n"
  shows "expo x < n"
proof -
  from assms expo_bounds [of x] have "(2::real) powi expo x < 2 powi n"
    by linarith
  then show ?thesis
    by (rule two_powi_less)
qed

lemma expo_ge:
  assumes "0 < x" and "2 powi n \<le> x"
  shows "n \<le> expo x"
proof -
  from assms expo_bounds [of x] have "(2::real) powi n < 2 powi (expo x + 1)"
    by linarith
  then have "n < expo x + 1"
    by (rule two_powi_less)
  then show ?thesis
    by simp
qed

lemma round_half_even_cases:
  "round_half_even z = \<lfloor>z\<rfloor> \<and> z - of_int \<lfloor>z\<rfloor> \<le> 1 / 2
   \<or> round_half_even z = \<lfloor>z\<rfloor> + 1 \<and> 1 / 2 \<le> z - of_int \<lfloor>z\<rfloor>"
  unfolding round_half_even_def Let_def by auto

lemma round_half_even_error: "\<bar>of_int (round_half_even z) - z\<bar> \<le> 1 / 2"
proof -
  have "of_int \<lfloor>z\<rfloor> \<le> z" "z < of_int \<lfloor>z\<rfloor> + 1"
    by linarith+
  with round_half_even_cases [of z] show ?thesis
  proof (elim disjE conjE)
    assume "round_half_even z = \<lfloor>z\<rfloor>" and "z - of_int \<lfloor>z\<rfloor> \<le> 1 / 2"
      and "of_int \<lfloor>z\<rfloor> \<le> z"
    then show ?thesis
      by simp
  next
    assume r: "round_half_even z = \<lfloor>z\<rfloor> + 1" and "1 / 2 \<le> z - of_int \<lfloor>z\<rfloor>"
      and "z < of_int \<lfloor>z\<rfloor> + 1"
    then show ?thesis
      unfolding r of_int_add of_int_1 by linarith
  qed
qed

lemma round_half_even_nonneg: "0 \<le> z \<Longrightarrow> 0 \<le> round_half_even z"
  unfolding round_half_even_def Let_def by simp

lemma fl_zero [simp]: "fl 0 = 0"
  by (simp add: fl_def)

lemma fl_nonneg:
  assumes "0 \<le> y"
  shows "0 \<le> fl y"
proof (cases "y = 0")
  case True
  then show ?thesis by (simp add: fl_zero)
next
  case False
  define q :: real where "q = 2 powi (max (expo \<bar>y\<bar>) (- 1022) - 52)"
  have q: "0 < q"
    by (simp add: q_def)
  with assms have "0 \<le> y / q"
    by simp
  then have "0 \<le> round_half_even (y / q)"
    by (rule round_half_even_nonneg)
  with q have "0 \<le> q * of_int (round_half_even (y / q))"
    by simp
  with False show ?thesis
    by (simp add: fl_def Let_def q_def)
qed

lemma fl_error_below_1024:
  assumes "0 < y" and "y < 1024"
  shows "\<bar>fl y - y\<bar> \<le> 1 / 2 ^ 44"
proof -
  define e where "e = max (expo \<bar>y\<bar>) (- 1022)"
  define q :: real where "q = 2 powi (e - 52)"
  have "y < 2 powi 10"
    using assms by simp
  with assms(1) have "expo y < 10"
    by (rule expo_less)
  with assms(1) have "e - 52 \<le> - 43"
    by (simp add: e_def)
  then have "q \<le> 2 powi (- 43)"
    unfolding q_def by (rule power_int_increasing) simp
  then have q43: "q \<le> 1 / 2 ^ 43"
    by (simp add: power_int_minus field_simps)
  have q: "0 < q"
    by (simp add: q_def)
  have fl: "fl y = q * of_int (round_half_even (y / q))"
    using assms by (simp add: fl_def Let_def q_def e_def)
  have "fl y - y = q * (of_int (round_half_even (y / q)) - y / q)"
    using q by (simp add: fl field_simps)
  then have "\<bar>fl y - y\<bar> = q * \<bar>of_int (round_half_even (y / q)) - y / q\<bar>"
    using q by (simp add: abs_mult)
  also have "\<dots> \<le> q * (1 / 2)"
    using q round_half_even_error [of "y / q"] by (intro mult_left_mono) simp_all
  also have "\<dots> \<le> 1 / 2 ^ 43 * (1 / 2)"
    using q43 by simp
  finally show ?thesis
    by simp
qed

lemma double_grid:
  assumes "double x" and "1 / 2 \<le> \<bar>x\<bar>"
  shows "\<exists>m::int. \<bar>x\<bar> * 2 ^ 53 = of_int m"
proof -
  define e where "e = expo \<bar>x\<bar>"
  define q :: real where "q = 2 powi (e - 52)"
  define n where "n = round_half_even (x / q)"
  from assms have x: "x \<noteq> 0" "0 < \<bar>x\<bar>"
    by auto
  have "(2::real) powi (- 1) \<le> \<bar>x\<bar>"
    using assms(2) by simp
  with x have e: "- 1 \<le> e"
    unfolding e_def by (intro expo_ge)
  then have m: "max (expo \<bar>x\<bar>) (- 1022) = e"
    by (simp add: e_def)
  have "fl x = q * of_int n"
    using x by (simp add: fl_def Let_def m n_def q_def)
  with assms have "x = q * of_int n"
    by (simp add: double_def)
  moreover have "0 < q"
    by (simp add: q_def)
  ultimately have ax: "\<bar>x\<bar> = q * of_int \<bar>n\<bar>"
    by (simp add: abs_mult)
  have "(2::real) powi (e - 52 + 53) = 2 powi (e - 52) * 2 powi 53"
    by (rule power_int_add) simp
  moreover have "e - 52 + 53 = int (nat (e + 1))"
    using e by simp
  moreover have "(2::real) powi 53 = 2 ^ 53"
    by (rule power_int_numeral)
  ultimately have "q * 2 ^ 53 = 2 powi int (nat (e + 1))"
    by (simp only: q_def)
  also have "\<dots> = 2 ^ nat (e + 1)"
    by (rule power_int_of_nat)
  finally have q: "q * 2 ^ 53 = 2 ^ nat (e + 1)" .
  have "\<bar>x\<bar> * 2 ^ 53 = of_int \<bar>n\<bar> * (q * 2 ^ 53)"
    unfolding ax by (simp only: mult_ac)
  also have "\<dots> = of_int (\<bar>n\<bar> * 2 ^ nat (e + 1))"
    unfolding q by (simp only: of_int_mult of_int_power of_int_numeral)
  finally show ?thesis ..
qed

lemma frac_double_bound:
  assumes "double x"
  shows "frac \<bar>x\<bar> \<le> 1 - 1 / 2 ^ 53"
proof (cases "1 / 2 \<le> \<bar>x\<bar>")
  case False
  then have "frac \<bar>x\<bar> = \<bar>x\<bar>"
    by (simp add: frac_eq)
  with False have "frac \<bar>x\<bar> < 1 / 2"
    by simp
  moreover have "(1::real) / 2 \<le> 1 - 1 / 2 ^ 53"
    by simp
  ultimately show ?thesis
    by linarith
next
  case True
  define P :: real where "P = 2 ^ 53"
  define K :: int where "K = 2 ^ 53"
  have PK: "P = of_int K"
    by (simp add: P_def K_def)
  from assms True obtain m :: int where m: "\<bar>x\<bar> * P = of_int m"
    unfolding P_def using double_grid by blast
  define k where "k = m - \<lfloor>\<bar>x\<bar>\<rfloor> * K"
  have "frac \<bar>x\<bar> * P = \<bar>x\<bar> * P - of_int \<lfloor>\<bar>x\<bar>\<rfloor> * P"
    by (simp add: frac_def algebra_simps)
  also have "\<dots> = of_int k"
    unfolding k_def of_int_diff of_int_mult m [symmetric] PK ..
  finally have k: "frac \<bar>x\<bar> * P = of_int k" .
  have "0 < P"
    by (simp add: P_def)
  then have "frac \<bar>x\<bar> * P < 1 * P"
    by (intro mult_strict_right_mono frac_lt_1)
  with k have "(of_int k :: real) < 1 * P"
    by (simp only:)
  also have "1 * P = of_int K"
    by (simp add: PK)
  finally have "k < K"
    by (simp only: of_int_less_iff)
  then have "k \<le> K - 1"
    by simp
  then have "(of_int k :: real) \<le> of_int (K - 1)"
    by (simp only: of_int_le_iff)
  also have "(of_int (K - 1) :: real) = P - 1"
    by (simp add: PK)
  finally have "frac \<bar>x\<bar> * P \<le> P - 1"
    by (simp only: k)
  with \<open>0 < P\<close> have "frac \<bar>x\<bar> \<le> (P - 1) / P"
    by (simp add: pos_le_divide_eq)
  also have "(P - 1) / P = 1 - 1 / 2 ^ 53"
    by (simp add: P_def)
  finally show ?thesis .
qed

lemma thousandths_range:
  assumes "double x"
  shows "0 \<le> \<lfloor>fl (frac \<bar>x\<bar> * 1000)\<rfloor> \<and> \<lfloor>fl (frac \<bar>x\<bar> * 1000)\<rfloor> \<le> 999"
proof -
  define y where "y = frac \<bar>x\<bar> * 1000"
  have y0: "0 \<le> y"
    by (simp add: y_def)
  have "frac \<bar>x\<bar> \<le> 1 - 1 / 2 ^ 53"
    using assms by (rule frac_double_bound)
  then have y1: "y \<le> 1000 - 1000 / 2 ^ 53"
    by (simp add: y_def)
  have lower: "0 \<le> fl y"
    using y0 by (rule fl_nonneg)
  have upper: "fl y < 1000"
  proof (cases "y = 0")
    case True
    then show ?thesis by (simp add: fl_zero)
  next
    case False
    with y0 y1 have "0 < y" "y < 1024"
      by simp_all
    then have "\<bar>fl y - y\<bar> \<le> 1 / 2 ^ 44"
      by (rule fl_error_below_1024)
    then have "fl y \<le> y + 1 / 2 ^ 44"
      by linarith
    also have "\<dots> \<le> 1000 - 1000 / 2 ^ 53 + 1 / 2 ^ 44"
      using y1 by simp
    also have "\<dots> < 1000"
      by simp
    finally show ?thesis .
  qed
  from lower have "0 \<le> \<lfloor>fl y\<rfloor>"
    by simp
  moreover from upper have "\<lfloor>fl y\<rfloor> < 1000"
    by (simp add: floor_less_iff)
  ultimately show ?thesis
    unfolding y_def by simp
qed

text \<open>The literals of the sample snapshot, and two of the values they yield.\<close>

lemma fl_literals:
  "fl (- 33.8765) = - (4767693524269269 / 2 ^ 47)"
  "fl 151.2093 = 5320204274491825 / 2 ^ 45"
  "fl 123.7 = 8704613654777037 / 2 ^ 46"
  "fl 1.852 = 8340666509890159 / 2 ^ 52"
  by (simp_all add: fl_def expo.simps round_half_even_def Let_def)

lemma double_literals:
  "double (fl (- 33.8765))"
  "double (fl 151.2093)"
  unfolding double_def fl_literals
  by (simp_all add: fl_def expo.simps round_half_even_def Let_def)

section \<open>Facts about the number operations and their text\<close>

lemma sym_char_no_h: "CHR ''h'' \<noteq> sym_char c"
  by (cases c) simp_all

lemma digit_char_digit: "d < 10 \<Longrightarrow> digit_char d \<in> set ''0123456789''"
  unfolding digit_char_def by (rule nth_mem) simp

lemma digit_char_no_h: "d < 10 \<Longrightarrow> digit_char d \<noteq> CHR ''h''"
  using digit_char_digit [of d] by auto

lemma decimal_no_h: "CHR ''h'' \<notin> set (decimal n)"
proof (induction n rule: decimal.induct)
  case (1 n)
  show ?case
  proof (cases "n < 10")
    case True
    then show ?thesis
      using digit_char_no_h [of n] by (subst decimal.simps) simp
  next
    case False
    have "digit_char (n mod 10) \<noteq> CHR ''h''"
      by (rule digit_char_no_h) simp
    with False "1.IH" show ?thesis
      by (subst decimal.simps) auto
  qed
qed

lemma trunc_nonneg: "0 \<le> x \<Longrightarrow> trunc x = \<lfloor>x\<rfloor>"
  by (simp add: trunc_def)

lemma str_includes_sublist: "str_includes t s \<longleftrightarrow> sublist s t"
  by (induction t) (simp_all add: sublist_Cons_right)

lemma Number_toString_no_h: "CHR ''h'' \<notin> set (Number_toString rt (Num x))"
proof (cases "x = of_int \<lfloor>x\<rfloor> \<and> \<bar>x\<bar> < 2 ^ 53")
  case True
  have "Number_toString rt (Num x) = (if x < 0 then ''-'' else '''') @ decimal (nat \<lfloor>\<bar>x\<bar>\<rfloor>)"
    unfolding Number_toString_def jsnum.case by (rule if_P) (rule True)
  then show ?thesis
    using decimal_no_h [of "nat \<lfloor>\<bar>x\<bar>\<rfloor>"] by simp
next
  case False
  have "Number_toString rt (Num x) = map sym_char (rt x)"
    unfolding Number_toString_def jsnum.case by (rule if_not_P) (rule False)
  then show ?thesis
    by (auto simp: sym_char_no_h)
qed

lemma hr_included: "str_includes (a @ '' hr '' @ b) ''hr''"
proof -
  have "sublist ''hr'' ((a @ '' '') @ ''hr'' @ ('' '' @ b))"
    by (rule sublist_appendI)
  then show ?thesis
    by (simp add: str_includes_sublist)
qed

lemma hr_not_included:
  assumes "CHR ''h'' \<notin> set a"
  shows "\<not> str_includes (a @ '' min'') ''hr''"
proof
  assume "str_includes (a @ '' min'') ''hr''"
  then have "set ''hr'' \<subseteq> set (a @ '' min'')"
    unfolding str_includes_sublist by (rule set_mono_sublist)
  with assms show False by simp
qed

lemma toFixed0_round:
  assumes "\<bar>x\<bar> < 10 ^ 21"
  shows "toFixed0 rt (Num x) = (if x < 0 then ''-'' else '''') @ decimal (nat \<lfloor>\<bar>x\<bar> + 1 / 2\<rfloor>)"
  using assms by (simp add: toFixed0_def)

section \<open>Duration formatting\<close>

lemma formatDuration_clamped:
  assumes "0 \<le> c"
  shows "formatDuration rt (Val (Num c)) =
     (if 0 < \<lfloor>c / 60\<rfloor> then Number_toString rt (Num (of_int \<lfloor>c / 60\<rfloor>)) @ '' hr '' else '''')
     @ Number_toString rt (Num (c - 60 * of_int \<lfloor>c / 60\<rfloor>)) @ '' min''"
proof -
  have "trunc (c / 60) = \<lfloor>c / 60\<rfloor>"
    using assms by (intro trunc_nonneg) simp
  moreover have "max 0 c = c"
    using assms by simp
  ultimately show ?thesis
    by (simp add: formatDuration_def isNaN_def Math_floor_def Let_def del: zero_less_floor)
qed

lemma formatDuration_max:
  "formatDuration rt (Val (Num x)) = formatDuration rt (Val (Num (max 0 x)))"
  by (simp add: formatDuration_def isNaN_def)

lemma formatDuration_examples:
  "formatDuration rt (Val (Num 125)) = ''2 hr 5 min''"
  "formatDuration rt (Val (Num 45)) = ''45 min''"
  "formatDuration rt (Val (Num 60)) = ''1 hr 0 min''"
  "formatDuration rt (Val (Num 0)) = ''0 min''"
  "formatDuration (\<lambda>_. [D3, D0, Point, D5]) (Val (Num 90.5)) = ''1 hr 30.5 min''"
  by (simp_all add: formatDuration_clamped Number_toString_def decimal.simps digit_char_def)

text \<open>
  Claim C4. \<open>formatDuration\<close> returns \<open>"N/A"\<close> for a missing input (\<open>undefined\<close>, or
  \<open>null\<close>) and for \<open>NaN\<close>; it has no failing path, every input yields a string. For a
  finite input it clamps negative values to 0, so that \<open>formatDuration(-5)\<close> equals
  \<open>formatDuration(0)\<close>; with \<open>hours = floor(minutes / 60)\<close> and
  \<open>remMinutes = minutes mod 60\<close>, that is \<open>minutes - 60 * hours\<close>, it renders
  \<open>"<hours> hr <remMinutes> min"\<close>, without the hour segment when \<open>hours = 0\<close>.
\<close>

theorem formatDuration_contract:
  "formatDuration rt Undefined = ''N/A''
   \<and> formatDuration rt Null = ''N/A''
   \<and> formatDuration rt (Val NaN) = ''N/A''
   \<and> formatDuration rt (Val (Num x)) = formatDuration rt (Val (Num (max 0 x)))
   \<and> formatDuration rt (Val (Num (- 5))) = formatDuration rt (Val (Num 0))
   \<and> formatDuration rt (Val (Num x)) =
       (let minutes = max 0 x;
            hours = \<lfloor>minutes / 60\<rfloor>;
            remMinutes = minutes - 60 * of_int hours
        in (if hours = 0 then '''' else Number_toString rt (Num (of_int hours)) @ '' hr '')
           @ Number_toString rt (Num remMinutes) @ '' min'')"
proof -
  have absent: "formatDuration rt Undefined = ''N/A''" "formatDuration rt Null = ''N/A''"
    "formatDuration rt (Val NaN) = ''N/A''"
    by (simp_all add: formatDuration_def isNaN_def)
  have clamp: "formatDuration rt (Val (Num y)) = formatDuration rt (Val (Num (max 0 y)))" for y
    by (rule formatDuration_max)
  have neg: "formatDuration rt (Val (Num (- 5))) = formatDuration rt (Val (Num 0))"
    by (subst clamp) simp
  define c where "c = max 0 x"
  have c0: "0 \<le> c"
    by (simp add: c_def)
  then have "0 \<le> \<lfloor>c / 60\<rfloor>"
    by simp
  then have hours: "(0 < \<lfloor>c / 60\<rfloor>) = (\<lfloor>c / 60\<rfloor> \<noteq> 0)"
    by linarith
  have "formatDuration rt (Val (Num x)) = formatDuration rt (Val (Num c))"
    unfolding c_def by (rule clamp)
  also have "\<dots> =
      (if \<lfloor>c / 60\<rfloor> = 0 then '''' else Number_toString rt (Num (of_int \<lfloor>c / 60\<rfloor>)) @ '' hr '')
      @ Number_toString rt (Num (c - 60 * of_int \<lfloor>c / 60\<rfloor>)) @ '' min''"
    unfolding formatDuration_clamped [OF c0] hours by simp
  finally have shape: "formatDuration rt (Val (Num x)) =
       (let minutes = max 0 x;
            hours = \<lfloor>minutes / 60\<rfloor>;
            remMinutes = minutes - 60 * of_int hours
        in (if hours = 0 then '''' else Number_toString rt (Num (of_int hours)) @ '' hr '')
           @ Number_toString rt (Num remMinutes) @ '' min'')"
    unfolding Let_def c_def .
  from absent clamp neg shape show ?thesis
    by blast
qed

text \<open>
  Claim C5. For every finite number of minutes \<open>m \<ge> 0\<close>, the string
  \<open>formatDuration(m)\<close> contains \<open>"hr"\<close> if and only if \<open>floor(m / 60) > 0\<close>.
\<close>

theorem formatDuration_hr_iff:
  assumes "0 \<le> m"
  shows "str_includes (formatDuration rt (Val (Num m))) ''hr'' \<longleftrightarrow> 0 < \<lfloor>m / 60\<rfloor>"
proof (cases "0 < \<lfloor>m / 60\<rfloor>")
  case True
  then have "formatDuration rt (Val (Num m)) =
      Number_toString rt (Num (of_int \<lfloor>m / 60\<rfloor>)) @ '' hr ''
      @ (Number_toString rt (Num (m - 60 * of_int \<lfloor>m / 60\<rfloor>)) @ '' min'')"
    unfolding formatDuration_clamped [OF assms] by simp
  with True show ?thesis
    using hr_included by simp
next
  case False
  then have "formatDuration rt (Val (Num m)) =
      Number_toString rt (Num (m - 60 * of_int \<lfloor>m / 60\<rfloor>)) @ '' min''"
    unfolding formatDuration_clamped [OF assms] by simp
  with False show ?thesis
    using hr_not_included [OF Number_toString_no_h] by simp
qed

theorem formatDuration_hr_iff_witness:
  "(0::real) \<le> 125
   \<and> str_includes (formatDuration (\<lambda>_. []) (Val (Num 125))) ''hr''
   \<and> 0 < \<lfloor>(125::real) / 60\<rfloor>
   \<and> (0::real) \<le> 45
   \<and> \<not> str_includes (formatDuration (\<lambda>_. []) (Val (Num 45))) ''hr''
   \<and> \<not> 0 < \<lfloor>(45::real) / 60\<rfloor>"
  using formatDuration_hr_iff [of 125 "\<lambda>_. []"] formatDuration_hr_iff [of 45 "\<lambda>_. []"]
  by simp

section \<open>Route progress\<close>

lemma percent_finite:
  "percent (Val (Num d)) (Val (Num t)) =
     (if 0 < d then Num (max 0 (min 100 (fl ((d - t) / d * 100)))) else Num 0)"
  by (simp add: percent_def)

lemma percent_missing:
  "percent Undefined t = Num 0" "percent Null t = Num 0"
  "percent (Val d) Undefined = Num 0" "percent (Val d) Null = Num 0"
  "percent (Val NaN) t = Num 0"
  by (simp_all add: percent_def split: nullable.splits)

lemma percent_range:
  assumes "timeToGo \<noteq> Val NaN"
  shows "\<exists>p. percent flightDuration timeToGo = Num p \<and> 0 \<le> p \<and> p \<le> 100"
proof (cases flightDuration)
  case (Val d)
  show ?thesis
  proof (cases timeToGo)
    case t: (Val t)
    with assms obtain y where y: "t = Num y" by (cases t) auto
    show ?thesis
    proof (cases d)
      case NaN
      with Val show ?thesis by (simp add: percent_missing)
    next
      case (Num x)
      with Val t y show ?thesis by (simp add: percent_finite)
    qed
  qed (simp_all add: Val percent_missing)
qed (simp_all add: percent_missing)

text \<open>
  Claim C10 states that the route-progress percentage always lies in \<open>[0, 100]\<close>. The
  component computes it whenever both props have type \<open>number\<close> and the duration is
  positive; \<open>NaN\<close> has that type, \<open>Math.min\<close> and \<open>Math.max\<close> pass it on, and so a
  duration of 120 minutes with \<open>NaN\<close> minutes to go yields \<open>NaN\<close>, which is neither in
  \<open>[0, 100]\<close> nor \<open>0\<close>. (\<open>formatDuration\<close> tests the same prop with \<open>isNaN\<close>.)
\<close>

theorem percent_NaN_timeToGo:
  "percent (Val (Num 120)) (Val NaN) = NaN"
  by (simp add: percent_def)

section \<open>GPX export\<close>

text \<open>
  Claim C7. With an empty list of snapshots the export does nothing: the state after
  \<open>handleExport\<close> is the state before it, so neither \<open>convertToGPX\<close> nor \<open>downloadGPX\<close>
  has been called and the menu has not been closed; the function returns as usual (the
  model has no failing path, as the source has none), and the menu entry is disabled.
\<close>

theorem handleExport_empty:
  "handleExport convertToGPX [] flightNumber s = s \<and> export_disabled []"
  by (simp add: handleExport_def export_disabled_def)

text \<open>
  With a snapshot in the list the three calls are made, in this order.
\<close>

lemma handleExport_nonempty:
  "handleExport convertToGPX (p # ps) flightNumber s =
     s\<lparr>open := False,
       calls := calls s @ [ConvertToGPX (p # ps),
                           DownloadGPX (convertToGPX (p # ps)) (or_flight flightNumber),
                           SetOpen False]\<rparr>"
  by (simp add: handleExport_def)

section \<open>Metric derivation\<close>

lemma metrics_nth:
  "metrics lib rt data ! 2 =
     Standard \<lparr>
        title = ''Heading'',
        unit = deg,
        secondaryValue =
          (case heading data of
             Val h \<Rightarrow> if truthy h then getCompassDirection lib h else Null
           | _ \<Rightarrow> Null),
        secondaryUnit = Val '''',
        value =
          (case heading data of
             Val h \<Rightarrow> if truthy h then Val (Math_abs (Math_floor h)) else Null
           | _ \<Rightarrow> Null),
        places = [100, 10, 1]\<rparr>"
  "metrics lib rt data ! 3 =
      Standard \<lparr>
        title = ''Distance To Go'',
        unit = ''nm'',
        secondaryValue =
          (case distanceToGo' data of
             Val n \<Rightarrow>
               if truthy n then Val (Str (toFixed0 rt (js_mul n (Num (fl 1.852))))) else Null
           | _ \<Rightarrow> Null),
        secondaryUnit = Val ''km'',
        value = distanceToGo' data,
        places = [1000, 100, 10, 1]\<rparr>"
  "metrics lib rt data ! 4 =
      Coordinate \<lparr>
        title = ''Latitude'',
        unit = (if js_ge (latitude data) (Num 0) then deg @ ''N'' else deg @ ''S''),
        secondaryValue = Undefined,
        secondaryUnit = Undefined,
        wholeValue = Math_floor (Math_abs (latitude data)),
        decimalValue =
          Math_floor (js_mul (js_rem (Math_abs (latitude data)) (Num 1)) (Num 1000)),
        wholePlaces = [100, 10, 1],
        decimalPlaces = [100, 10, 1]\<rparr>"
  "metrics lib rt data ! 5 =
      Coordinate \<lparr>
        title = ''Longitude'',
        unit = (if js_ge (longitude data) (Num 0) then deg @ ''E'' else deg @ ''W''),
        secondaryValue = Undefined,
        secondaryUnit = Undefined,
        wholeValue = Math_floor (Math_abs (longitude data)),
        decimalValue =
          Math_floor (js_mul (js_rem (Math_abs (longitude data)) (Num 1)) (Num 1000)),
        wholePlaces = [100, 10, 1],
        decimalPlaces = [100, 10, 1]\<rparr>"
  by (simp_all add: metrics_def)

subsection \<open>Heading\<close>

text \<open>
  Claim C1, as amended. If the heading is \<open>null\<close> or absent, the primary and the
  secondary value of the heading metric are both \<open>null\<close>. If the heading is a finite
  number other than 0, the primary value is \<open>abs(floor(heading))\<close> and the secondary
  value is \<open>getCompassDirection(heading)\<close>. The floor is taken first:
  \<open>abs(floor(h))\<close> equals \<open>floor(abs(h))\<close> when \<open>h \<ge> 0\<close> or \<open>h\<close> is an integer (a heading
  of -10 gives 10), not otherwise.
\<close>

theorem heading_metric:
  "(heading data = Undefined \<or> heading data = Null \<longrightarrow>
      metrics lib rt data ! 2 =
        Standard \<lparr>title = ''Heading'', unit = deg, secondaryValue = Null,
          secondaryUnit = Val '''', value = Null, places = [100, 10, 1]\<rparr>)
   \<and> (heading data = Val (Num h) \<and> h \<noteq> 0 \<longrightarrow>
      metrics lib rt data ! 2 =
        Standard \<lparr>title = ''Heading'', unit = deg,
          secondaryValue = getCompassDirection lib (Num h),
          secondaryUnit = Val '''', value = Val (Num \<bar>of_int \<lfloor>h\<rfloor>\<bar>),
          places = [100, 10, 1]\<rparr>)
   \<and> (0 \<le> h \<or> h = of_int \<lfloor>h\<rfloor> \<longrightarrow> \<bar>of_int \<lfloor>h\<rfloor> :: real\<bar> = of_int \<lfloor>\<bar>h\<bar>\<rfloor>)"
proof -
  have "\<bar>of_int \<lfloor>h\<rfloor> :: real\<bar> = of_int \<lfloor>\<bar>h\<bar>\<rfloor>" if "0 \<le> h"
    using that by simp
  moreover have "\<bar>of_int \<lfloor>h\<rfloor> :: real\<bar> = of_int \<lfloor>\<bar>h\<bar>\<rfloor>" if "h = of_int \<lfloor>h\<rfloor>"
  proof -
    define k where "k = \<lfloor>h\<rfloor>"
    have k: "h = of_int k"
      unfolding k_def by (rule that)
    show ?thesis
      unfolding k by (simp flip: of_int_abs)
  qed
  ultimately show ?thesis
    by (auto simp add: metrics_nth(1) truthy_def Math_floor_def Math_abs_def)
qed

theorem heading_metric_witness:
  "heading sample_data = Val (Num (- 10)) \<and> (- 10 :: real) \<noteq> 0
   \<and> metrics sample_utils (\<lambda>_. []) sample_data ! 2 =
        Standard \<lparr>title = ''Heading'', unit = deg, secondaryValue = Val (Str ''N''),
          secondaryUnit = Val '''', value = Val (Num 10), places = [100, 10, 1]\<rparr>
   \<and> heading (sample_data\<lparr>heading := Null\<rparr>) = Null
   \<and> metrics sample_utils (\<lambda>_. []) (sample_data\<lparr>heading := Null\<rparr>) ! 2 =
        Standard \<lparr>title = ''Heading'', unit = deg, secondaryValue = Null,
          secondaryUnit = Val '''', value = Null, places = [100, 10, 1]\<rparr>"
  using heading_metric [where data = sample_data and h = "- 10" and lib = sample_utils
      and rt = "\<lambda>_. []"]
    heading_metric [where data = "sample_data\<lparr>heading := Null\<rparr>" and h = 0
      and lib = sample_utils and rt = "\<lambda>_. []"]
  by (simp add: sample_data_def sample_utils_def)

text \<open>
  Claim C1 as stated fails. For a heading of -10.5 the component shows
  \<open>abs(floor(-10.5)) = 11\<close>, where \<open>floor(abs(-10.5))\<close> is 10; for a heading of 0, which is
  neither \<open>null\<close> nor absent, it shows no value at all, where \<open>floor(abs(0))\<close> is 0.
\<close>

theorem heading_floor_abs_counterexample:
  "metrics sample_utils (\<lambda>_. []) (sample_data\<lparr>heading := Val (Num (- 10.5))\<rparr>) ! 2 =
     Standard \<lparr>title = ''Heading'', unit = deg, secondaryValue = Val (Str ''N''),
       secondaryUnit = Val '''', value = Val (Num 11), places = [100, 10, 1]\<rparr>
   \<and> Math_floor (Math_abs (Num (- 10.5))) = Num 10
   \<and> metrics sample_utils (\<lambda>_. []) (sample_data\<lparr>heading := Val (Num 0)\<rparr>) ! 2 =
     Standard \<lparr>title = ''Heading'', unit = deg, secondaryValue = Null,
       secondaryUnit = Val '''', value = Null, places = [100, 10, 1]\<rparr>
   \<and> Math_floor (Math_abs (Num 0)) = Num 0"
  by (simp add: metrics_nth(1) truthy_def Math_floor_def Math_abs_def sample_utils_def)

text \<open>
  Claim C8. For a snapshot whose heading is exactly 0, the primary and the secondary
  value of the heading metric are both \<open>null\<close>: the heading is tested for truthiness, and
  \<open>0\<close> is falsy.
\<close>

theorem heading_zero_unavailable:
  "metrics lib rt (data\<lparr>heading := Val (Num 0)\<rparr>) ! 2 =
     Standard \<lparr>title = ''Heading'', unit = deg, secondaryValue = Null,
       secondaryUnit = Val '''', value = Null, places = [100, 10, 1]\<rparr>"
  by (simp add: metrics_nth(1) truthy_def)

subsection \<open>Distance to go\<close>

text \<open>
  Claim C9. For a snapshot with \<open>distanceToGo = 0\<close>, the primary value of the
  distance metric is 0 and its secondary value is \<open>null\<close>: the primary value is guarded
  by comparisons with \<open>null\<close> and \<open>undefined\<close>, the conversion to kilometres by the
  truthiness of the floored value.
\<close>

theorem distance_zero_no_km:
  "metrics lib rt (data\<lparr>distanceToGo := Val (Num 0)\<rparr>) ! 3 =
     Standard \<lparr>title = ''Distance To Go'', unit = ''nm'', secondaryValue = Null,
       secondaryUnit = Val ''km'', value = Val (Num 0), places = [1000, 100, 10, 1]\<rparr>"
  by (simp add: metrics_nth(2) distanceToGo'_def Math_floor_def truthy_def)

text \<open>
  Claim C2 states that a distance which is present has the secondary value
  \<open>floor(distanceToGo) * 1.852\<close>, rounded to 0 decimals. For \<open>distanceToGo = 0.4\<close> the
  primary value is \<open>floor(0.4) = 0\<close>, and the secondary value is \<open>null\<close>, where the
  rounded conversion of 0 is \<open>"0"\<close>.
\<close>

theorem distance_below_one_no_km:
  "metrics lib rt (data\<lparr>distanceToGo := Val (Num 0.4)\<rparr>) ! 3 =
     Standard \<lparr>title = ''Distance To Go'', unit = ''nm'', secondaryValue = Null,
       secondaryUnit = Val ''km'', value = Val (Num 0), places = [1000, 100, 10, 1]\<rparr>
   \<and> Math_floor (Num 0.4) = Num 0
   \<and> toFixed0 rt (js_mul (Math_floor (Num 0.4)) (Num 1.852)) = ''0''"
  by (simp add: metrics_nth(2) distanceToGo'_def Math_floor_def truthy_def toFixed0_def
      decimal.simps digit_char_def)

text \<open>
  The rest of what claim C2 states holds: a missing distance gives \<open>null\<close> twice, and
  a distance whose floor is not 0 gives the floor and the rounded conversion of the
  floor, as for 123.7 nautical miles.
\<close>

lemma distance_metric_missing:
  assumes "distanceToGo data = Null \<or> distanceToGo data = Undefined"
  shows "metrics lib rt data ! 3 =
     Standard \<lparr>title = ''Distance To Go'', unit = ''nm'', secondaryValue = Null,
       secondaryUnit = Val ''km'', value = Null, places = [1000, 100, 10, 1]\<rparr>"
  using assms by (auto simp add: metrics_nth(2) distanceToGo'_def)

lemma distance_metric_nonzero:
  assumes "distanceToGo data = Val (Num x)" and "\<lfloor>x\<rfloor> \<noteq> 0"
  shows "metrics lib rt data ! 3 =
     Standard \<lparr>title = ''Distance To Go'', unit = ''nm'',
       secondaryValue = Val (Str (toFixed0 rt (Num (fl (of_int \<lfloor>x\<rfloor> * fl 1.852))))),
       secondaryUnit = Val ''km'', value = Val (Num (of_int \<lfloor>x\<rfloor>)),
       places = [1000, 100, 10, 1]\<rparr>"
  using assms by (simp add: metrics_nth(2) distanceToGo'_def Math_floor_def truthy_def)

lemma distance_example:
  "metrics lib rt (data\<lparr>distanceToGo := Val (Num (fl 123.7))\<rparr>) ! 3 =
     Standard \<lparr>title = ''Distance To Go'', unit = ''nm'', secondaryValue = Val (Str ''228''),
       secondaryUnit = Val ''km'', value = Val (Num 123), places = [1000, 100, 10, 1]\<rparr>"
proof -
  have floor: "Math_floor (Num (fl 123.7)) = Num 123"
    unfolding fl_literals by (simp add: Math_floor_def)
  have product: "js_mul (Num 123) (Num (fl 1.852)) = Num (8014859224347575 / 2 ^ 45)"
    unfolding js_mul.simps fl_literals
    by (simp add: fl_def expo.simps round_half_even_def Let_def)
  have km: "toFixed0 rt (js_mul (Num 123) (Num (fl 1.852))) = ''228''"
    unfolding product by (simp add: toFixed0_def decimal.simps digit_char_def)
  have floored: "distanceToGo' (data\<lparr>distanceToGo := Val (Num (fl 123.7))\<rparr>) = Val (Num 123)"
    by (simp add: distanceToGo'_def floor)
  show ?thesis
    unfolding metrics_nth(2) floored nullable.case km by (simp add: truthy_def)
qed

subsection \<open>Latitude and longitude\<close>

lemma coordinate_parts:
  "Math_floor (Math_abs (Num v)) = Num (of_int \<lfloor>\<bar>v\<bar>\<rfloor>)"
  "Math_floor (js_mul (js_rem (Math_abs (Num v)) (Num 1)) (Num 1000)) =
     Num (of_int \<lfloor>fl (frac \<bar>v\<bar> * 1000)\<rfloor>)"
  by (simp_all add: Math_floor_def Math_abs_def trunc_def frac_def)

text \<open>
  Claim C3. For every snapshot whose coordinates are finite doubles, the latitude and
  the longitude metric have \<open>wholeValue = floor(abs(v))\<close> and
  \<open>decimalValue = floor((abs(v) mod 1) * 1000)\<close>, the product being the one of the source,
  rounded to a double; the decimal value is an integer from 0 to 999 (the floor is
  taken, the value is not rounded up to 1000). The unit is \<open>\<degree>N\<close> for a latitude \<open>\<ge> 0\<close>
  and \<open>\<degree>S\<close> below, \<open>\<degree>E\<close> for a longitude \<open>\<ge> 0\<close> and \<open>\<degree>W\<close> below, so that 0 counts as north
  and east. The latitude -33.8765 gives 33, 876 and \<open>\<degree>S\<close>.
\<close>

theorem coordinate_metrics:
  assumes "latitude data = Num la" and "longitude data = Num lo"
    and "double la" and "double lo"
  shows "metrics lib rt data ! 4 =
      Coordinate \<lparr>
        title = ''Latitude'',
        unit = (if 0 \<le> la then deg @ ''N'' else deg @ ''S''),
        secondaryValue = Undefined,
        secondaryUnit = Undefined,
        wholeValue = Num (of_int \<lfloor>\<bar>la\<bar>\<rfloor>),
        decimalValue = Num (of_int \<lfloor>fl (frac \<bar>la\<bar> * 1000)\<rfloor>),
        wholePlaces = [100, 10, 1],
        decimalPlaces = [100, 10, 1]\<rparr>
    \<and> metrics lib rt data ! 5 =
      Coordinate \<lparr>
        title = ''Longitude'',
        unit = (if 0 \<le> lo then deg @ ''E'' else deg @ ''W''),
        secondaryValue = Undefined,
        secondaryUnit = Undefined,
        wholeValue = Num (of_int \<lfloor>\<bar>lo\<bar>\<rfloor>),
        decimalValue = Num (of_int \<lfloor>fl (frac \<bar>lo\<bar> * 1000)\<rfloor>),
        wholePlaces = [100, 10, 1],
        decimalPlaces = [100, 10, 1]\<rparr>
    \<and> 0 \<le> \<lfloor>fl (frac \<bar>la\<bar> * 1000)\<rfloor> \<and> \<lfloor>fl (frac \<bar>la\<bar> * 1000)\<rfloor> \<le> 999
    \<and> 0 \<le> \<lfloor>fl (frac \<bar>lo\<bar> * 1000)\<rfloor> \<and> \<lfloor>fl (frac \<bar>lo\<bar> * 1000)\<rfloor> \<le> 999"
proof -
  have "metrics lib rt data ! 4 =
      Coordinate \<lparr>
        title = ''Latitude'',
        unit = (if 0 \<le> la then deg @ ''N'' else deg @ ''S''),
        secondaryValue = Undefined,
        secondaryUnit = Undefined,
        wholeValue = Num (of_int \<lfloor>\<bar>la\<bar>\<rfloor>),
        decimalValue = Num (of_int \<lfloor>fl (frac \<bar>la\<bar> * 1000)\<rfloor>),
        wholePlaces = [100, 10, 1],
        decimalPlaces = [100, 10, 1]\<rparr>"
    unfolding metrics_nth(3) assms(1) coordinate_parts by simp
  moreover have "metrics lib rt data ! 5 =
      Coordinate \<lparr>
        title = ''Longitude'',
        unit = (if 0 \<le> lo then deg @ ''E'' else deg @ ''W''),
        secondaryValue = Undefined,
        secondaryUnit = Undefined,
        wholeValue = Num (of_int \<lfloor>\<bar>lo\<bar>\<rfloor>),
        decimalValue = Num (of_int \<lfloor>fl (frac \<bar>lo\<bar> * 1000)\<rfloor>),
        wholePlaces = [100, 10, 1],
        decimalPlaces = [100, 10, 1]\<rparr>"
    unfolding metrics_nth(4) assms(2) coordinate_parts by simp
  ultimately show ?thesis
    using thousandths_range [OF assms(3)] thousandths_range [OF assms(4)] by simp
qed

theorem coordinate_metrics_witness:
  "latitude sample_data = Num (fl (- 33.8765)) \<and> longitude sample_data = Num (fl 151.2093)
   \<and> double (fl (- 33.8765)) \<and> double (fl 151.2093)
   \<and> metrics sample_utils (\<lambda>_. []) sample_data ! 4 =
      Coordinate \<lparr>title = ''Latitude'', unit = deg @ ''S'', secondaryValue = Undefined,
        secondaryUnit = Undefined, wholeValue = Num 33, decimalValue = Num 876,
        wholePlaces = [100, 10, 1], decimalPlaces = [100, 10, 1]\<rparr>
   \<and> metrics sample_utils (\<lambda>_. []) sample_data ! 5 =
      Coordinate \<lparr>title = ''Longitude'', unit = deg @ ''E'', secondaryValue = Undefined,
        secondaryUnit = Undefined, wholeValue = Num 151, decimalValue = Num 209,
        wholePlaces = [100, 10, 1], decimalPlaces = [100, 10, 1]\<rparr>"
proof -
  have lat: "\<lfloor>fl (frac \<bar>fl (- 33.8765)\<bar> * 1000)\<rfloor> = 876" "\<lfloor>\<bar>fl (- 33.8765)\<bar>\<rfloor> = 33"
    "\<not> 0 \<le> fl (- 33.8765)"
    unfolding fl_literals
    by (simp_all add: fl_def expo.simps round_half_even_def Let_def frac_def)
  have lon: "\<lfloor>fl (frac \<bar>fl 151.2093\<bar> * 1000)\<rfloor> = 209" "\<lfloor>\<bar>fl 151.2093\<bar>\<rfloor> = 151"
    "0 \<le> fl 151.2093"
    unfolding fl_literals
    by (simp_all add: fl_def expo.simps round_half_even_def Let_def frac_def)
  have data: "latitude sample_data = Num (fl (- 33.8765))"
    "longitude sample_data = Num (fl 151.2093)"
    by (simp_all add: sample_data_def)
  from coordinate_metrics [OF data double_literals, of sample_utils "\<lambda>_. []"] data
    double_literals
  show ?thesis
    by (simp only: lat lon if_True if_False of_int_numeral simp_thms)
qed

text \<open>
  The rounding of the product shows in the digits: the double nearest to 0.009 lies below
  0.009 and yet gives 9, and the one nearest to 4.35 gives 349.
\<close>

lemma coordinate_rounding_examples:
  "Math_floor (js_mul (js_rem (Math_abs (Num (fl 0.009))) (Num 1)) (Num 1000)) = Num 9"
  "fl 0.009 < 0.009"
  "\<lfloor>frac \<bar>fl 0.009\<bar> * 1000\<rfloor> = 8"
  "Math_floor (js_mul (js_rem (Math_abs (Num (fl 4.35))) (Num 1)) (Num 1000)) = Num 349"
  unfolding coordinate_parts
  by (simp_all add: fl_def expo.simps round_half_even_def Let_def frac_def)

section \<open>Periodicity of the compass direction\<close>

lemma normalize360_shift: "normalize360 (h + 360 * of_int k) = normalize360 h"
proof -
  have "(h + 360 * of_int k) / 360 = h / 360 + of_int k"
    by simp
  then have "\<lfloor>(h + 360 * of_int k) / 360\<rfloor> = \<lfloor>h / 360 + of_int k\<rfloor>"
    by (rule arg_cong)
  also have "\<dots> = \<lfloor>h / 360\<rfloor> + k"
    by (rule floor_add_int [symmetric])
  finally have "\<lfloor>(h + 360 * of_int k) / 360\<rfloor> = \<lfloor>h / 360\<rfloor> + k" .
  then show ?thesis
    by (simp add: normalize360_def algebra_simps)
qed

lemma normalize360_range: "0 \<le> normalize360 h \<and> normalize360 h < 360"
proof -
  have "normalize360 h = 360 * frac (h / 360)"
    by (simp add: normalize360_def frac_def algebra_simps)
  moreover have "0 \<le> frac (h / 360)" "frac (h / 360) < 1"
    by (simp_all add: frac_lt_1)
  ultimately show ?thesis
    by simp
qed

text \<open>
  Claim C6. The compass direction has period 360: for every bearing \<open>h\<close> and every
  integer \<open>k\<close>, \<open>h\<close> and \<open>h + 360 * k\<close> have the same direction, for any list of points.
  The bearing is normalised before the sector is chosen: the normalised bearing lies in
  \<open>[0, 360)\<close>, also for a negative \<open>h\<close>, and is the same for \<open>h\<close> and \<open>h + 360 * k\<close>.
\<close>

theorem compassDirection_periodic:
  "compassDirection points (h + 360 * of_int k) = compassDirection points h
   \<and> normalize360 (h + 360 * of_int k) = normalize360 h
   \<and> 0 \<le> normalize360 h \<and> normalize360 h < 360"
  using normalize360_range [of h]
  by (simp add: compassDirection_def sector_def normalize360_shift)

lemma compassDirection_examples:
  "compassDirection points16 0 = ''N''"
  "compassDirection points16 (- 10) = ''N''"
  "compassDirection points16 350 = ''N''"
  "compassDirection points16 11.25 = ''NNE''"
  "compassDirection points16 (- 11.25) = ''N''"
  "compassDirection points16 (- 90) = ''W''"
  "compassDirection points16 270 = ''W''"
  "compassDirection points16 630 = ''W''"
  "compassDirection points8 100 = ''E''"
  "compassDirection points8 (- 350) = ''N''"
  by (simp_all add: compassDirection_def sector_def normalize360_def points16_def points8_def)

end
